theory Spec2Isabelle
  imports Complex_Main
begin

section \<open>The SDK comparison report generator (compare-results.ts)\<close>

text \<open>
  A shallow embedding of \<^verbatim>\<open>src/compare-results.ts\<close>: the normaliser of test
  results, the loader, the per-test comparison, the totals and the report that is
  written to \<^verbatim>\<open>comparison-report.json\<close>.

  A JavaScript \<^verbatim>\<open>number\<close> is modelled as a rational with exact arithmetic: the
  rounding of IEEE doubles, \<^verbatim>\<open>NaN\<close> and the infinities are left out. A field that
  a parsed JSON object may lack is an \<open>option\<close>, \<open>None\<close> standing for
  \<^verbatim>\<open>undefined\<close>. The lines printed on the console are not modelled.
\<close>

type_synonym number = rat

subsection \<open>The operator \<^verbatim>\<open>||\<close>\<close>

text \<open>
  \<^verbatim>\<open>a || b\<close> is \<^verbatim>\<open>a\<close> when \<^verbatim>\<open>a\<close> is truthy and \<^verbatim>\<open>b\<close> otherwise.
  \<^verbatim>\<open>undefined\<close>, the number \<^verbatim>\<open>0\<close>, the empty string and \<^verbatim>\<open>false\<close> are falsy.
  \<open>num_or\<close> is the operator between two operands that may be undefined,
  \<open>num_or_else\<close> the operator with a right operand that is always defined.
\<close>

definition truthy_num :: "number option \<Rightarrow> bool" where
  "truthy_num a = (case a of None \<Rightarrow> False | Some x \<Rightarrow> x \<noteq> 0)"

definition truthy_str :: "string option \<Rightarrow> bool" where
  "truthy_str a = (case a of None \<Rightarrow> False | Some s \<Rightarrow> s \<noteq> [])"

definition num_or :: "number option \<Rightarrow> number option \<Rightarrow> number option" where
  "num_or a b = (if truthy_num a then a else b)"

definition num_or_else :: "number option \<Rightarrow> number \<Rightarrow> number" where
  "num_or_else a d = (case a of None \<Rightarrow> d | Some x \<Rightarrow> if x \<noteq> 0 then x else d)"

definition str_or :: "string option \<Rightarrow> string option \<Rightarrow> string option" where
  "str_or a b = (if truthy_str a then a else b)"

definition str_or_else :: "string option \<Rightarrow> string \<Rightarrow> string" where
  "str_or_else a d = (case a of None \<Rightarrow> d | Some s \<Rightarrow> if s \<noteq> [] then s else d)"

definition bool_or_else :: "bool option \<Rightarrow> bool \<Rightarrow> bool" where
  "bool_or_else a d = (case a of None \<Rightarrow> d | Some b \<Rightarrow> if b then b else d)"

subsection \<open>Test results\<close>

text \<open>
  \<open>RawRecord\<close> is one object of a parsed results file, the argument of
  \<^verbatim>\<open>normaliseResult\<close>: the TypeScript harness writes the camelCase keys, the Python
  harness the snake_case keys, so each of them may be missing. \<open>TestResult\<close> is
  the object \<^verbatim>\<open>normaliseResult\<close> returns, which has the camelCase keys only.
\<close>

record RawRecord =
  testName :: "string option"
  test_name :: "string option"
  framework :: string
  model :: string
  prompt :: string
  response :: string
  tokensIn :: "number option"
  tokens_in :: "number option"
  tokensOut :: "number option"
  tokens_out :: "number option"
  cost :: number
  durationMs :: "number option"
  duration_ms :: "number option"
  success :: bool
  error :: "string option"

record TestResult =
  testName :: string
  framework :: string
  model :: string
  prompt :: string
  response :: string
  tokensIn :: number
  tokensOut :: number
  cost :: number
  durationMs :: number
  success :: bool
  error :: "string option"

subsection \<open>Bedrock pricing and the normaliser\<close>

definition BEDROCK_INPUT_PRICE :: number where
  "BEDROCK_INPUT_PRICE = 15.0"

definition BEDROCK_OUTPUT_PRICE :: number where
  "BEDROCK_OUTPUT_PRICE = 75.0"

definition calculateBedrockCost :: "number \<Rightarrow> number \<Rightarrow> number" where
  "calculateBedrockCost tIn tOut =
     (tIn / 1000000) * BEDROCK_INPUT_PRICE + (tOut / 1000000) * BEDROCK_OUTPUT_PRICE"

definition normaliseResult :: "RawRecord \<Rightarrow> TestResult" where
  "normaliseResult r =
     (let tIn = num_or_else (num_or (RawRecord.tokensIn r) (tokens_in r)) 0;
          tOut = num_or_else (num_or (RawRecord.tokensOut r) (tokens_out r)) 0;
          c = calculateBedrockCost tIn tOut
      in \<lparr> TestResult.testName =
             str_or_else (str_or (RawRecord.testName r) (test_name r)) ''Unknown'',
           framework = RawRecord.framework r,
           model = RawRecord.model r,
           prompt = RawRecord.prompt r,
           response = RawRecord.response r,
           tokensIn = tIn,
           tokensOut = tOut,
           cost = c,
           durationMs = num_or_else (num_or (RawRecord.durationMs r) (duration_ms r)) 0,
           success = RawRecord.success r,
           error = RawRecord.error r \<rparr>)"

subsection \<open>Loading a results file\<close>

text \<open>
  The state of one results file: it does not exist, it exists and holds a JSON array
  of result objects, or it exists and does not (then \<^verbatim>\<open>JSON.parse\<close> or
  \<^verbatim>\<open>data.map\<close> throws).
\<close>

datatype results_file = NotFound | Invalid | ResultSet "RawRecord list"

datatype error = LoadError

definition loadResults :: "results_file \<Rightarrow> error + TestResult list option" where
  "loadResults f =
     (case f of
        NotFound \<Rightarrow> Inr None
      | Invalid \<Rightarrow> Inl LoadError
      | ResultSet data \<Rightarrow> Inr (Some (map normaliseResult data)))"

subsection \<open>The comparison of one test\<close>

datatype speed_verdict = SpeedPi | SpeedClaude | SpeedTie

datatype cost_verdict = CostPi | CostClaude | CostTie | CostUnknown

record SdkMetrics =
  duration :: number
  tokensIn :: number
  tokensOut :: number
  cost :: number
  success :: bool

record Winner =
  speed :: speed_verdict
  cost :: cost_verdict

record ComparisonResult =
  testName :: string
  piSdk :: SdkMetrics
  claudeSdk :: SdkMetrics
  winner :: Winner

text \<open>\<^verbatim>\<open>results?.find((r) => r.testName === testName)\<close>\<close>

definition findResult :: "TestResult list option \<Rightarrow> string \<Rightarrow> TestResult option" where
  "findResult results name =
     (case results of
        None \<Rightarrow> None
      | Some rs \<Rightarrow> List.find (\<lambda>r. TestResult.testName r = name) rs)"

text \<open>The metrics of one SDK in a comparison: \<^verbatim>\<open>result?.field || 0\<close>.\<close>

definition sdkMetrics :: "TestResult option \<Rightarrow> SdkMetrics" where
  "sdkMetrics result =
     \<lparr> SdkMetrics.duration = num_or_else (map_option TestResult.durationMs result) 0,
       tokensIn = num_or_else (map_option TestResult.tokensIn result) 0,
       tokensOut = num_or_else (map_option TestResult.tokensOut result) 0,
       cost = num_or_else (map_option TestResult.cost result) 0,
       success = bool_or_else (map_option TestResult.success result) False \<rparr>"

text \<open>
  The body of the loop over the test names: the comparison starts with the verdicts
  \<^verbatim>\<open>"tie"\<close> and \<^verbatim>\<open>"unknown"\<close>, which the two \<^verbatim>\<open>if\<close> statements overwrite.
\<close>

definition compareTest ::
  "TestResult list option \<Rightarrow> TestResult list option \<Rightarrow> string \<Rightarrow> ComparisonResult" where
  "compareTest piResults claudeResults name =
     (let piResult = findResult piResults name;
          claudeResult = findResult claudeResults name;
          p = sdkMetrics piResult;
          c = sdkMetrics claudeResult;
          sp = (if duration p \<noteq> 0 \<and> duration c \<noteq> 0
                then (if duration p < duration c * 0.9 then SpeedPi
                      else if duration c < duration p * 0.9 then SpeedClaude
                      else SpeedTie)
                else SpeedTie);
          co = (if SdkMetrics.cost p > 0 \<and> SdkMetrics.cost c > 0
                then (if SdkMetrics.cost p < SdkMetrics.cost c * 0.9 then CostPi
                      else if SdkMetrics.cost c < SdkMetrics.cost p * 0.9 then CostClaude
                      else CostTie)
                else CostUnknown)
      in \<lparr> ComparisonResult.testName = name, piSdk = p, claudeSdk = c,
           winner = \<lparr> speed = sp, cost = co \<rparr> \<rparr>)"

subsection \<open>The set of test names\<close>

text \<open>
  A JavaScript \<^verbatim>\<open>Set\<close> iterates in insertion order, and \<^verbatim>\<open>add\<close> of a member
  changes nothing: the set is a list without duplicates.
\<close>

definition set_add :: "string list \<Rightarrow> string \<Rightarrow> string list" where
  "set_add s x = (if x \<in> set s then s else s @ [x])"

text \<open>\<^verbatim>\<open>results?.forEach((r) => testNames.add(r.testName))\<close>\<close>

definition addTestNames :: "string list \<Rightarrow> TestResult list option \<Rightarrow> string list" where
  "addTestNames s results =
     (case results of
        None \<Rightarrow> s
      | Some rs \<Rightarrow> foldl set_add s (map TestResult.testName rs))"

definition testNames :: "TestResult list option \<Rightarrow> TestResult list option \<Rightarrow> string list" where
  "testNames piResults claudeResults = addTestNames (addTestNames [] piResults) claudeResults"

definition buildComparisons ::
  "TestResult list option \<Rightarrow> TestResult list option \<Rightarrow> ComparisonResult list" where
  "buildComparisons piResults claudeResults =
     map (compareTest piResults claudeResults) (testNames piResults claudeResults)"

subsection \<open>Totals and the report\<close>

record Totals =
  duration :: number
  tokensIn :: number
  tokensOut :: number
  cost :: number
  passed :: nat

text \<open>The object \<^verbatim>\<open>speedWins\<close>, with the keys \<^verbatim>\<open>pi\<close>, \<^verbatim>\<open>claude\<close> and \<^verbatim>\<open>tie\<close>.\<close>

record SpeedWins =
  pi_wins :: nat
  claude_wins :: nat
  tie_wins :: nat

record Summary =
  piTotals :: Totals
  claudeTotals :: Totals
  speedWins :: SpeedWins

record Report =
  comparisons :: "ComparisonResult list"
  summary :: Summary
  generatedAt :: string

text \<open>\<^verbatim>\<open>comparisons.reduce((sum, c) => sum + f(c), 0)\<close>\<close>

definition reduce_sum :: "(ComparisonResult \<Rightarrow> number) \<Rightarrow> ComparisonResult list \<Rightarrow> number" where
  "reduce_sum f cs = foldl (\<lambda>sum c. sum + f c) 0 cs"

definition sdkTotals :: "(ComparisonResult \<Rightarrow> SdkMetrics) \<Rightarrow> ComparisonResult list \<Rightarrow> Totals" where
  "sdkTotals sdk cs =
     \<lparr> Totals.duration = reduce_sum (\<lambda>c. SdkMetrics.duration (sdk c)) cs,
       tokensIn = reduce_sum (\<lambda>c. SdkMetrics.tokensIn (sdk c)) cs,
       tokensOut = reduce_sum (\<lambda>c. SdkMetrics.tokensOut (sdk c)) cs,
       cost = reduce_sum (\<lambda>c. SdkMetrics.cost (sdk c)) cs,
       passed = length (filter (\<lambda>c. SdkMetrics.success (sdk c)) cs) \<rparr>"

definition countSpeedWins :: "ComparisonResult list \<Rightarrow> SpeedWins" where
  "countSpeedWins cs =
     \<lparr> pi_wins = length (filter (\<lambda>c. speed (winner c) = SpeedPi) cs),
       claude_wins = length (filter (\<lambda>c. speed (winner c) = SpeedClaude) cs),
       tie_wins = length (filter (\<lambda>c. speed (winner c) = SpeedTie) cs) \<rparr>"

text \<open>
  The object given to \<^verbatim>\<open>JSON.stringify\<close>; \<open>now\<close> is the value of
  \<^verbatim>\<open>new Date().toISOString()\<close>.
\<close>

definition buildReport ::
  "TestResult list option \<Rightarrow> TestResult list option \<Rightarrow> string \<Rightarrow> Report" where
  "buildReport piResults claudeResults now =
     (let cs = buildComparisons piResults claudeResults
      in \<lparr> comparisons = cs,
           summary = \<lparr> piTotals = sdkTotals piSdk cs,
                       claudeTotals = sdkTotals claudeSdk cs,
                       speedWins = countSpeedWins cs \<rparr>,
           generatedAt = now \<rparr>)"

text \<open>
  \<^verbatim>\<open>compareResults\<close>, given the state of \<^verbatim>\<open>pi-sdk-results.json\<close>, the state of
  \<^verbatim>\<open>anthropic-bedrock-results.json\<close> and the clock. \<open>Inl\<close> is an exception,
  \<open>Inr None\<close> the early return after the notice "No results found", where nothing
  is written, and \<open>Inr (Some report)\<close> the report written to
  \<^verbatim>\<open>comparison-report.json\<close>.
\<close>

definition compareResults ::
  "results_file \<Rightarrow> results_file \<Rightarrow> string \<Rightarrow> error + Report option" where
  "compareResults piFile claudeFile now =
     (case loadResults piFile of
        Inl e \<Rightarrow> Inl e
      | Inr piResults \<Rightarrow>
          (case loadResults claudeFile of
             Inl e \<Rightarrow> Inl e
           | Inr claudeResults \<Rightarrow>
               if piResults = None \<and> claudeResults = None then Inr None
               else Inr (Some (buildReport piResults claudeResults now))))"


section \<open>Notions used in the statements\<close>

text \<open>The test names of the result set a file holds, after normalisation, in file order.\<close>

definition loadedNames :: "results_file \<Rightarrow> string list" where
  "loadedNames f =
     (case f of
        ResultSet data \<Rightarrow> map (\<lambda>r. TestResult.testName (normaliseResult r)) data
      | _ \<Rightarrow> [])"

definition namesOf :: "TestResult list option \<Rightarrow> string list" where
  "namesOf results = (case results of None \<Rightarrow> [] | Some rs \<Rightarrow> map TestResult.testName rs)"

text \<open>The metrics of an SDK that has no result for a test.\<close>

definition zeroMetrics :: SdkMetrics where
  "zeroMetrics =
     \<lparr> SdkMetrics.duration = 0, tokensIn = 0, tokensOut = 0, cost = 0, success = False \<rparr>"


subsection \<open>Concrete result sets\<close>

text \<open>A record as the TypeScript harness writes it, and one as the Python harness does.\<close>

definition mkCamel :: "string \<Rightarrow> number \<Rightarrow> number \<Rightarrow> number \<Rightarrow> bool \<Rightarrow> RawRecord" where
  "mkCamel name dur tIn tOut ok =
     \<lparr> RawRecord.testName = Some name, test_name = None,
       framework = ''pi-agent-sdk'', model = ''claude-opus-4-5'',
       prompt = ''prompt'', response = ''response'',
       tokensIn = Some tIn, tokens_in = None, tokensOut = Some tOut, tokens_out = None,
       cost = 0, durationMs = Some dur, duration_ms = None, success = ok, error = None \<rparr>"

definition mkSnake :: "string \<Rightarrow> number \<Rightarrow> number \<Rightarrow> number \<Rightarrow> bool \<Rightarrow> RawRecord" where
  "mkSnake name dur tIn tOut ok =
     \<lparr> RawRecord.testName = None, test_name = Some name,
       framework = ''anthropic-bedrock'', model = ''claude-opus-4-5'',
       prompt = ''prompt'', response = ''response'',
       tokensIn = None, tokens_in = Some tIn, tokensOut = None, tokens_out = Some tOut,
       cost = 0, durationMs = None, duration_ms = Some dur, success = ok, error = None \<rparr>"

definition demo_time :: string where
  "demo_time = ''2026-01-15T00:00:00.000Z''"

definition demo_pi :: results_file where
  "demo_pi = ResultSet
     [mkCamel ''Bug Detection'' 7340 50 454 True,
      mkCamel ''Code Review'' 1000 100 200 True,
      mkCamel ''Pi Only'' 500 0 0 False,
      mkCamel ''Boundary'' 899999 10 10 True]"

definition demo_claude :: results_file where
  "demo_claude = ResultSet
     [mkSnake ''Code Review'' 1050 100 200 True,
      mkSnake ''Bug Detection'' 8160 50 457 True,
      mkSnake ''Boundary'' 1000000 10 100 True,
      mkSnake ''Claude Only'' 300 10 400 True]"

definition demo_bug :: ComparisonResult where
  "demo_bug =
     \<lparr> ComparisonResult.testName = ''Bug Detection'',
       piSdk = \<lparr> SdkMetrics.duration = 7340, tokensIn = 50, tokensOut = 454,
                 cost = 0.0348, success = True \<rparr>,
       claudeSdk = \<lparr> SdkMetrics.duration = 8160, tokensIn = 50, tokensOut = 457,
                     cost = 0.035025, success = True \<rparr>,
       winner = \<lparr> speed = SpeedPi, cost = CostTie \<rparr> \<rparr>"

definition demo_review :: ComparisonResult where
  "demo_review =
     \<lparr> ComparisonResult.testName = ''Code Review'',
       piSdk = \<lparr> SdkMetrics.duration = 1000, tokensIn = 100, tokensOut = 200,
                 cost = 0.0165, success = True \<rparr>,
       claudeSdk = \<lparr> SdkMetrics.duration = 1050, tokensIn = 100, tokensOut = 200,
                     cost = 0.0165, success = True \<rparr>,
       winner = \<lparr> speed = SpeedTie, cost = CostTie \<rparr> \<rparr>"

definition demo_pi_only :: ComparisonResult where
  "demo_pi_only =
     \<lparr> ComparisonResult.testName = ''Pi Only'',
       piSdk = \<lparr> SdkMetrics.duration = 500, tokensIn = 0, tokensOut = 0,
                 cost = 0, success = False \<rparr>,
       claudeSdk = \<lparr> SdkMetrics.duration = 0, tokensIn = 0, tokensOut = 0,
                     cost = 0, success = False \<rparr>,
       winner = \<lparr> speed = SpeedTie, cost = CostUnknown \<rparr> \<rparr>"

definition demo_boundary :: ComparisonResult where
  "demo_boundary =
     \<lparr> ComparisonResult.testName = ''Boundary'',
       piSdk = \<lparr> SdkMetrics.duration = 899999, tokensIn = 10, tokensOut = 10,
                 cost = 0.0009, success = True \<rparr>,
       claudeSdk = \<lparr> SdkMetrics.duration = 1000000, tokensIn = 10, tokensOut = 100,
                     cost = 0.00765, success = True \<rparr>,
       winner = \<lparr> speed = SpeedPi, cost = CostPi \<rparr> \<rparr>"

definition demo_claude_only :: ComparisonResult where
  "demo_claude_only =
     \<lparr> ComparisonResult.testName = ''Claude Only'',
       piSdk = \<lparr> SdkMetrics.duration = 0, tokensIn = 0, tokensOut = 0,
                 cost = 0, success = False \<rparr>,
       claudeSdk = \<lparr> SdkMetrics.duration = 300, tokensIn = 10, tokensOut = 400,
                     cost = 0.03015, success = True \<rparr>,
       winner = \<lparr> speed = SpeedTie, cost = CostUnknown \<rparr> \<rparr>"

definition demo_report :: Report where
  "demo_report =
     \<lparr> comparisons = [demo_bug, demo_review, demo_pi_only, demo_boundary, demo_claude_only],
       summary =
         \<lparr> piTotals = \<lparr> Totals.duration = 908839, tokensIn = 160, tokensOut = 664,
                        cost = 0.0522, passed = 3 \<rparr>,
           claudeTotals = \<lparr> Totals.duration = 1009510, tokensIn = 170, tokensOut = 1157,
                            cost = 0.089325, passed = 4 \<rparr>,
           speedWins = \<lparr> pi_wins = 2, claude_wins = 0, tie_wins = 3 \<rparr> \<rparr>,
       generatedAt = demo_time \<rparr>"

text \<open>
  The records of the end-to-end scenario for "Bug Detection": the fields the scenario
  fixes are set in a record \<open>base\<close> that gives the others.
\<close>

definition scenario_A :: "RawRecord \<Rightarrow> RawRecord" where
  "scenario_A base =
     base\<lparr> RawRecord.testName := Some ''Bug Detection'', RawRecord.durationMs := Some 7340,
           RawRecord.tokensIn := Some 50, RawRecord.tokensOut := Some 454,
           RawRecord.cost := 0 \<rparr>"

definition scenario_B :: "RawRecord \<Rightarrow> RawRecord" where
  "scenario_B base =
     base\<lparr> RawRecord.testName := Some ''Bug Detection'', RawRecord.durationMs := Some 8160,
           RawRecord.tokensIn := Some 50, RawRecord.tokensOut := Some 457,
           RawRecord.cost := 0 \<rparr>"

definition scenario_report :: Report where
  "scenario_report =
     buildReport
       (Some (map normaliseResult [scenario_A (mkCamel [] 0 0 0 True)]))
       (Some (map normaliseResult [scenario_B (mkCamel [] 0 0 0 True)]))
       demo_time"







definition falsy_raw :: RawRecord where
  "falsy_raw =
     \<lparr> RawRecord.testName = Some [], test_name = Some ''Code Review'',
       framework = ''anthropic-bedrock'', model = ''claude-opus-4-5'',
       prompt = ''prompt'', response = ''response'',
       tokensIn = Some 0, tokens_in = Some 50, tokensOut = Some 0, tokens_out = Some 454,
       cost = 0, durationMs = Some 0, duration_ms = Some 8160, success = True,
       error = None \<rparr>"

section \<open>The normaliser\<close>

text \<open>
  C1. For every raw record, the cost of the normalised record is
  \<open>tokensIn / 1e6 * 15 + tokensOut / 1e6 * 75\<close> over the token counts the
  normaliser resolved (the camelCase count when it is truthy, else the snake_case count
  when that is truthy, else 0), whatever cost the raw record carries.
\<close>

theorem normaliseResult_cost:
  "TestResult.cost (normaliseResult r) =
     TestResult.tokensIn (normaliseResult r) / 1000000 * 15
       + TestResult.tokensOut (normaliseResult r) / 1000000 * 75
   \<and> TestResult.tokensIn (normaliseResult r) =
       num_or_else (num_or (RawRecord.tokensIn r) (tokens_in r)) 0
   \<and> TestResult.tokensOut (normaliseResult r) =
       num_or_else (num_or (RawRecord.tokensOut r) (tokens_out r)) 0
   \<and> normaliseResult (r\<lparr>RawRecord.cost := c\<rparr>) = normaliseResult r"
  by (simp add: normaliseResult_def calculateBedrockCost_def BEDROCK_INPUT_PRICE_def
      BEDROCK_OUTPUT_PRICE_def Let_def)

text \<open>
  C6. A record whose test name, token counts and duration are present under the
  snake_case keys only is normalised to the same result as the record that carries the
  same values under the camelCase keys only.
\<close>

theorem normaliseResult_convention_independent:
  "normaliseResult
     (r\<lparr>RawRecord.testName := None, test_name := name,
        RawRecord.tokensIn := None, tokens_in := tIn,
        RawRecord.tokensOut := None, tokens_out := tOut,
        RawRecord.durationMs := None, duration_ms := dur\<rparr>)
   = normaliseResult
     (r\<lparr>RawRecord.testName := name, test_name := None,
        RawRecord.tokensIn := tIn, tokens_in := None,
        RawRecord.tokensOut := tOut, tokens_out := None,
        RawRecord.durationMs := dur, duration_ms := None\<rparr>)"
  by (simp add: normaliseResult_def Let_def num_or_def str_or_def truthy_num_def
      truthy_str_def num_or_else_def str_or_else_def split: option.splits)

text \<open>
  C9. A camelCase field that is present and falsy counts as absent: with
  \<open>tokensIn = 0\<close> and \<open>tokens_in = n > 0\<close> the normalised \<open>tokensIn\<close> is
  \<open>n\<close>, likewise for \<open>tokensOut\<close> and \<open>durationMs\<close>, and an empty
  \<open>testName\<close> resolves to \<open>test_name\<close>, or to "Unknown" when \<open>test_name\<close>
  is empty or absent too.
\<close>

theorem normaliseResult_falsy_camelCase:
  "(RawRecord.tokensIn r = Some 0 \<and> tokens_in r = Some n \<and> n > 0
      \<longrightarrow> TestResult.tokensIn (normaliseResult r) = n)
   \<and> (RawRecord.tokensOut r = Some 0 \<and> tokens_out r = Some n \<and> n > 0
      \<longrightarrow> TestResult.tokensOut (normaliseResult r) = n)
   \<and> (RawRecord.durationMs r = Some 0 \<and> duration_ms r = Some n \<and> n > 0
      \<longrightarrow> TestResult.durationMs (normaliseResult r) = n)
   \<and> (RawRecord.testName r = Some [] \<longrightarrow>
        TestResult.testName (normaliseResult r) =
          (case test_name r of
             None \<Rightarrow> ''Unknown''
           | Some s \<Rightarrow> if s = [] then ''Unknown'' else s))"
  by (simp add: normaliseResult_def Let_def num_or_def str_or_def truthy_num_def
      truthy_str_def num_or_else_def str_or_else_def split: option.splits)

theorem normaliseResult_falsy_camelCase_witness:
  "TestResult.tokensIn (normaliseResult falsy_raw) = 50
   \<and> TestResult.tokensOut (normaliseResult falsy_raw) = 454
   \<and> TestResult.durationMs (normaliseResult falsy_raw) = 8160
   \<and> TestResult.testName (normaliseResult falsy_raw) = ''Code Review''
   \<and> TestResult.testName (normaliseResult (falsy_raw\<lparr>test_name := None\<rparr>)) = ''Unknown''
   \<and> TestResult.testName (normaliseResult (falsy_raw\<lparr>test_name := Some []\<rparr>)) = ''Unknown''"
  using normaliseResult_falsy_camelCase [of falsy_raw 50]
    normaliseResult_falsy_camelCase [of falsy_raw 454]
    normaliseResult_falsy_camelCase [of falsy_raw 8160]
    normaliseResult_falsy_camelCase [of "falsy_raw\<lparr>test_name := None\<rparr>" 0]
    normaliseResult_falsy_camelCase [of "falsy_raw\<lparr>test_name := Some []\<rparr>" 0]
  by (simp add: falsy_raw_def)

section \<open>The report that is written\<close>

lemmas model_defs =
  compareResults_def loadResults_def buildReport_def buildComparisons_def testNames_def
  addTestNames_def set_add_def compareTest_def findResult_def sdkMetrics_def
  normaliseResult_def calculateBedrockCost_def BEDROCK_INPUT_PRICE_def BEDROCK_OUTPUT_PRICE_def
  num_or_def num_or_else_def str_or_def str_or_else_def bool_or_else_def truthy_num_def
  truthy_str_def sdkTotals_def countSpeedWins_def reduce_sum_def Let_def

lemmas demo_defs =
  demo_pi_def demo_claude_def demo_report_def demo_bug_def demo_review_def demo_pi_only_def
  demo_boundary_def demo_claude_only_def mkCamel_def mkSnake_def


lemma comparisons_buildReport:
  "comparisons (buildReport pr cr now) = map (compareTest pr cr) (testNames pr cr)"
  by (simp add: buildReport_def buildComparisons_def Let_def)


text \<open>The run on the concrete result sets \<open>demo_pi\<close> and \<open>demo_claude\<close>.\<close>

lemma demo_run: "compareResults demo_pi demo_claude demo_time = Inr (Some demo_report)"
  by (simp add: demo_defs model_defs)

lemma demo_members:
  "demo_bug \<in> set (comparisons demo_report)"
  "demo_review \<in> set (comparisons demo_report)"
  "demo_pi_only \<in> set (comparisons demo_report)"
  "demo_boundary \<in> set (comparisons demo_report)"
  "demo_claude_only \<in> set (comparisons demo_report)"
  by (simp_all add: demo_report_def)

subsection \<open>Verdicts\<close>







subsection \<open>One entry for each test name\<close>

lemma set_foldl_set_add: "set (foldl set_add s xs) = set s \<union> set xs"
  by (induction xs arbitrary: s) (auto simp: set_add_def)

lemma foldl_set_add_first_occurrences: "foldl set_add [] xs = rev (remdups (rev xs))"
proof (induction xs rule: rev_induct)
  case Nil
  show ?case by simp
next
  case (snoc x xs)
  have "set (foldl set_add [] xs) = set xs"
    by (simp add: set_foldl_set_add)
  with snoc show ?case
    by (simp add: set_add_def)
qed

lemma testNames_eq: "testNames pr cr = foldl set_add [] (namesOf pr @ namesOf cr)"
  by (simp add: testNames_def addTestNames_def namesOf_def split: option.splits)

lemma namesOf_loadResults: "loadResults f = Inr rs \<Longrightarrow> namesOf rs = loadedNames f"
  by (auto simp: loadResults_def namesOf_def loadedNames_def split: results_file.splits)

lemma findResult_absent: "name \<notin> set (namesOf rs) \<Longrightarrow> findResult rs name = None"
  by (auto simp: findResult_def namesOf_def find_None_iff split: option.splits)

lemma sdkMetrics_None: "sdkMetrics None = zeroMetrics"
  by (simp add: sdkMetrics_def zeroMetrics_def num_or_else_def bool_or_else_def)

lemma compareTest_name: "ComparisonResult.testName (compareTest pr cr name) = name"
  by (simp add: compareTest_def Let_def)

lemma compareTest_pi_absent:
  "name \<notin> set (namesOf pr) \<Longrightarrow>
     piSdk (compareTest pr cr name) = zeroMetrics
     \<and> speed (winner (compareTest pr cr name)) = SpeedTie"
  by (simp add: compareTest_def Let_def findResult_absent sdkMetrics_None zeroMetrics_def)

lemma compareTest_claude_absent:
  "name \<notin> set (namesOf cr) \<Longrightarrow>
     claudeSdk (compareTest pr cr name) = zeroMetrics
     \<and> speed (winner (compareTest pr cr name)) = SpeedTie"
  by (simp add: compareTest_def Let_def findResult_absent sdkMetrics_None zeroMetrics_def)

text \<open>
  C4. When each file is absent or holds a result set, and not both are absent, the run
  raises nothing and writes a report whose entries are, one for each distinct test name
  of the two loaded result sets, in the order in which the names are first met (Pi's
  file, then Claude's). In the entry of a test for which an SDK has no record, that
  SDK's metrics are all 0 with \<open>success = false\<close>, and the speed verdict is a tie.
\<close>

theorem comparisons_union_of_test_names:
  assumes "p \<noteq> Invalid" and "c \<noteq> Invalid" and "p \<noteq> NotFound \<or> c \<noteq> NotFound"
  shows "\<exists>rep. compareResults p c now = Inr (Some rep)
     \<and> map ComparisonResult.testName (comparisons rep)
         = rev (remdups (rev (loadedNames p @ loadedNames c)))
     \<and> distinct (map ComparisonResult.testName (comparisons rep))
     \<and> set (map ComparisonResult.testName (comparisons rep))
         = set (loadedNames p) \<union> set (loadedNames c)
     \<and> (\<forall>e \<in> set (comparisons rep).
          ComparisonResult.testName e \<notin> set (loadedNames p) \<longrightarrow>
            piSdk e = zeroMetrics \<and> speed (winner e) = SpeedTie)
     \<and> (\<forall>e \<in> set (comparisons rep).
          ComparisonResult.testName e \<notin> set (loadedNames c) \<longrightarrow>
            claudeSdk e = zeroMetrics \<and> speed (winner e) = SpeedTie)"
proof -
  from assms obtain pr cr where
    lp: "loadResults p = Inr pr" and lc: "loadResults c = Inr cr"
    and some: "pr \<noteq> None \<or> cr \<noteq> None"
    by (cases p; cases c) (auto simp: loadResults_def)
  define rep where "rep = buildReport pr cr now"
  have written: "compareResults p c now = Inr (Some rep)"
    using lp lc some by (auto simp: compareResults_def rep_def)
  have np: "namesOf pr = loadedNames p" and nc: "namesOf cr = loadedNames c"
    using lp lc by (simp_all add: namesOf_loadResults)
  have cs: "comparisons rep = map (compareTest pr cr) (testNames pr cr)"
    by (simp add: rep_def comparisons_buildReport)
  have names: "map ComparisonResult.testName (comparisons rep) = testNames pr cr"
    by (simp add: cs comp_def compareTest_name)
  have tn: "testNames pr cr = foldl set_add [] (loadedNames p @ loadedNames c)"
    by (simp add: testNames_eq np nc)
  have order: "map ComparisonResult.testName (comparisons rep)
      = rev (remdups (rev (loadedNames p @ loadedNames c)))"
    by (simp only: names tn foldl_set_add_first_occurrences)
  have dist: "distinct (map ComparisonResult.testName (comparisons rep))"
    by (simp only: order distinct_rev distinct_remdups)
  have union: "set (map ComparisonResult.testName (comparisons rep))
      = set (loadedNames p) \<union> set (loadedNames c)"
    by (simp only: order set_rev set_remdups set_append)
  have pa: "\<forall>e \<in> set (comparisons rep).
      ComparisonResult.testName e \<notin> set (loadedNames p) \<longrightarrow>
        piSdk e = zeroMetrics \<and> speed (winner e) = SpeedTie"
    using compareTest_pi_absent [of _ pr cr]
    by (auto simp: cs np compareTest_name)
  have ca: "\<forall>e \<in> set (comparisons rep).
      ComparisonResult.testName e \<notin> set (loadedNames c) \<longrightarrow>
        claudeSdk e = zeroMetrics \<and> speed (winner e) = SpeedTie"
    using compareTest_claude_absent [of _ cr pr]
    by (auto simp: cs nc compareTest_name)
  from written order dist union pa ca show ?thesis by blast
qed

theorem comparisons_union_of_test_names_witness:
  "map ComparisonResult.testName (comparisons demo_report) =
     [''Bug Detection'', ''Code Review'', ''Pi Only'', ''Boundary'', ''Claude Only'']
   \<and> claudeSdk demo_pi_only = zeroMetrics \<and> speed (winner demo_pi_only) = SpeedTie
   \<and> piSdk demo_claude_only = zeroMetrics \<and> speed (winner demo_claude_only) = SpeedTie"
proof -
  have valid: "demo_pi \<noteq> Invalid" "demo_claude \<noteq> Invalid"
    "demo_pi \<noteq> NotFound \<or> demo_claude \<noteq> NotFound"
    by (simp_all add: demo_pi_def demo_claude_def)
  have np: "loadedNames demo_pi =
      [''Bug Detection'', ''Code Review'', ''Pi Only'', ''Boundary'']"
    by (simp add: loadedNames_def demo_pi_def mkCamel_def normaliseResult_def Let_def
        str_or_def str_or_else_def truthy_str_def)
  have nc: "loadedNames demo_claude =
      [''Code Review'', ''Bug Detection'', ''Boundary'', ''Claude Only'']"
    by (simp add: loadedNames_def demo_claude_def mkSnake_def normaliseResult_def Let_def
        str_or_def str_or_else_def truthy_str_def)
  from comparisons_union_of_test_names [OF valid, of demo_time]
  have *: "map ComparisonResult.testName (comparisons demo_report)
        = rev (remdups (rev (loadedNames demo_pi @ loadedNames demo_claude)))
     \<and> (\<forall>e \<in> set (comparisons demo_report).
          ComparisonResult.testName e \<notin> set (loadedNames demo_pi) \<longrightarrow>
            piSdk e = zeroMetrics \<and> speed (winner e) = SpeedTie)
     \<and> (\<forall>e \<in> set (comparisons demo_report).
          ComparisonResult.testName e \<notin> set (loadedNames demo_claude) \<longrightarrow>
            claudeSdk e = zeroMetrics \<and> speed (winner e) = SpeedTie)"
    by (simp add: demo_run)
  have order: "map ComparisonResult.testName (comparisons demo_report) =
     [''Bug Detection'', ''Code Review'', ''Pi Only'', ''Boundary'', ''Claude Only'']"
    using * by (simp add: np nc)
  have "ComparisonResult.testName demo_pi_only \<notin> set (loadedNames demo_claude)"
    by (simp add: nc demo_pi_only_def)
  with * demo_members(3)
  have a: "claudeSdk demo_pi_only = zeroMetrics \<and> speed (winner demo_pi_only) = SpeedTie"
    by blast
  have "ComparisonResult.testName demo_claude_only \<notin> set (loadedNames demo_pi)"
    by (simp add: np demo_claude_only_def)
  with * demo_members(5)
  have b: "piSdk demo_claude_only = zeroMetrics \<and> speed (winner demo_claude_only) = SpeedTie"
    by blast
  from order a b show ?thesis by simp
qed

subsection \<open>The end-to-end scenario\<close>

text \<open>
  C5, as the code computes it. With Pi's record (7340 ms, 50 tokens in, 454 out) and
  Claude's (8160 ms, 50 in, 457 out) for "Bug Detection", the report has one entry,
  with the costs 0.0348 and 0.035025 (0.00075 for the input tokens, 0.03405 and
  0.034275 for the output tokens), the speed verdict Pi and the cost verdict tie.
\<close>

theorem scenario_entry:
  "(\<exists>rep. compareResults (ResultSet [scenario_A a]) (ResultSet [scenario_B b]) now
            = Inr (Some rep)
      \<and> comparisons rep =
          [\<lparr> ComparisonResult.testName = ''Bug Detection'',
             piSdk = \<lparr> SdkMetrics.duration = 7340, tokensIn = 50, tokensOut = 454,
                       cost = 0.0348, success = RawRecord.success a \<rparr>,
             claudeSdk = \<lparr> SdkMetrics.duration = 8160, tokensIn = 50, tokensOut = 457,
                           cost = 0.035025, success = RawRecord.success b \<rparr>,
             winner = \<lparr> speed = SpeedPi, cost = CostTie \<rparr> \<rparr>])
   \<and> calculateBedrockCost 50 0 = 0.00075
   \<and> calculateBedrockCost 0 454 = 0.03405
   \<and> calculateBedrockCost 0 457 = 0.034275
   \<and> calculateBedrockCost 50 454 = 0.00075 + 0.03405
   \<and> calculateBedrockCost 50 457 = 0.00075 + 0.034275"
  by (simp add: scenario_A_def scenario_B_def model_defs)

text \<open>
  C5 as the specification words it, with costs of about 0.0335 made of 0.00075 plus
  0.03255 and 0.03278, does not hold: the costs of the entry are 0.0348 and 0.035025,
  more than 0.001 above 0.0335, and the output tokens cost 0.03405 and 0.034275.
\<close>

theorem scenario_costs_counterexample:
  "compareResults (ResultSet [scenario_A (mkCamel [] 0 0 0 True)])
       (ResultSet [scenario_B (mkCamel [] 0 0 0 True)]) demo_time
     = Inr (Some scenario_report)
   \<and> map (\<lambda>e. SdkMetrics.cost (piSdk e)) (comparisons scenario_report) = [0.0348]
   \<and> map (\<lambda>e. SdkMetrics.cost (claudeSdk e)) (comparisons scenario_report) = [0.035025]
   \<and> \<not> \<bar>SdkMetrics.cost (piSdk (hd (comparisons scenario_report))) - 0.0335\<bar> \<le> 0.001
   \<and> \<not> \<bar>SdkMetrics.cost (claudeSdk (hd (comparisons scenario_report))) - 0.0335\<bar> \<le> 0.001
   \<and> calculateBedrockCost 0 454 \<noteq> 0.03255
   \<and> \<not> \<bar>calculateBedrockCost 0 457 - 0.03278\<bar> \<le> 0.001"
  by (simp add: scenario_report_def scenario_A_def scenario_B_def mkCamel_def model_defs)

subsection \<open>The summary\<close>









subsection \<open>The run as a whole\<close>



end
